theory Spec2Isabelle
  imports Main
begin

section \<open>Python values shared by both components\<close>

text \<open>
  Exceptions of the source are values: \<open>ValueError\<close> carries the message of the
  \<^verbatim>\<open>raise\<close>, \<open>TypeError\<close> is what a call with keyword arguments that the callee
  does not declare produces.
\<close>

datatype py_error = ValueError string | TypeError

text \<open>\<^verbatim>\<open>sep.join(xs)\<close> of Python.\<close>

fun join :: "string \<Rightarrow> string list \<Rightarrow> string" where
  "join sep [] = []"
| "join sep [x] = x"
| "join sep (x # y # ys) = x @ sep @ join sep (y # ys)"

text \<open>\<^verbatim>\<open>str(n)\<close> of a Python integer, as an f-string renders it.\<close>

definition digit_char :: "nat \<Rightarrow> char" where
  "digit_char d = ''0123456789'' ! d"

fun str_nat :: "nat \<Rightarrow> string" where
  "str_nat n = (if n < 10 then [digit_char n] else str_nat (n div 10) @ [digit_char (n mod 10)])"

declare str_nat.simps [simp del]

definition str_int :: "int \<Rightarrow> string" where
  "str_int i = (if i < 0 then CHR ''-'' # str_nat (nat (- i)) else str_nat (nat i))"

section \<open>The session store (\<^verbatim>\<open>SessionManager\<close>)\<close>

record message =
  role :: string
  content :: string

text \<open>
  \<^verbatim>\<open>self.max_history\<close> is a Python \<^verbatim>\<open>int\<close>; \<^verbatim>\<open>self.sessions\<close> is a dict from
  session id to the list of messages.
\<close>

record session_manager =
  max_history :: int
  sessions :: "string \<rightharpoonup> message list"

definition new_manager :: "int \<Rightarrow> session_manager" where
  "new_manager mh = \<lparr>max_history = mh, sessions = Map.empty\<rparr>"

text \<open>
  \<^verbatim>\<open>create_session\<close> draws the id from \<^verbatim>\<open>uuid.uuid4()\<close>; the drawn id is a
  parameter of the model.
\<close>

definition create_session :: "string \<Rightarrow> session_manager \<Rightarrow> string \<times> session_manager" where
  "create_session fresh_id m = (fresh_id, m\<lparr>sessions := (sessions m)(fresh_id \<mapsto> [])\<rparr>)"

definition not_found_msg :: "string \<Rightarrow> string" where
  "not_found_msg session_id = ''Session '' @ session_id @ '' not found''"

text \<open>
  The trimming of \<^verbatim>\<open>add_message\<close>: once the list is longer than
  \<^verbatim>\<open>self.max_history * 2\<close>, the slice \<^verbatim>\<open>[2:]\<close> replaces it.
\<close>

definition trim_history :: "int \<Rightarrow> message list \<Rightarrow> message list" where
  "trim_history mh h = (if int (length h) > mh * 2 then drop 2 h else h)"

definition add_message ::
  "session_manager \<Rightarrow> string \<Rightarrow> string \<Rightarrow> string \<Rightarrow> py_error + session_manager" where
  "add_message m session_id r c =
     (case sessions m session_id of
        None \<Rightarrow> Inl (ValueError (not_found_msg session_id))
      | Some h \<Rightarrow>
          Inr (m\<lparr>sessions := (sessions m)(session_id \<mapsto>
                 trim_history (max_history m) (h @ [\<lparr>role = r, content = c\<rparr>]))\<rparr>))"

definition get_session_history :: "session_manager \<Rightarrow> string \<Rightarrow> py_error + message list" where
  "get_session_history m session_id =
     (case sessions m session_id of
        None \<Rightarrow> Inl (ValueError (not_found_msg session_id))
      | Some h \<Rightarrow> Inr h)"

definition session_exists :: "session_manager \<Rightarrow> string \<Rightarrow> bool" where
  "session_exists m session_id = (sessions m session_id \<noteq> None)"

definition delete_session :: "session_manager \<Rightarrow> string \<Rightarrow> bool \<times> session_manager" where
  "delete_session m session_id =
     (if sessions m session_id \<noteq> None
      then (True, m\<lparr>sessions := (sessions m)(session_id := None)\<rparr>)
      else (False, m))"

text \<open>A run of \<^verbatim>\<open>add_message\<close> calls on one session; the first exception ends the run.\<close>

fun add_messages ::
  "session_manager \<Rightarrow> string \<Rightarrow> (string \<times> string) list \<Rightarrow> py_error + session_manager" where
  "add_messages m session_id [] = Inr m"
| "add_messages m session_id ((r, c) # rest) =
     (case add_message m session_id r c of
        Inl e \<Rightarrow> Inl e
      | Inr m' \<Rightarrow> add_messages m' session_id rest)"

text \<open>The history a manager stores for a session; empty where the id is unknown.\<close>

definition history_of :: "session_manager \<Rightarrow> string \<Rightarrow> message list" where
  "history_of m session_id = (case sessions m session_id of None \<Rightarrow> [] | Some h \<Rightarrow> h)"

section \<open>The content store consumed by the tools\<close>

text \<open>
  \<^verbatim>\<open>vector_store.py\<close> is not among the sources: the store is a parameter of the model,
  a record of the five operations the tools call. A metadata dict is read with
  \<^verbatim>\<open>meta.get("course_title", "unknown")\<close> and \<^verbatim>\<open>meta.get("lesson_number")\<close>, so
  each key is optional; \<open>None\<close> is the absent key (for the lesson number also the
  stored \<^verbatim>\<open>None\<close>).
\<close>

record meta =
  course_title :: "string option"
  lesson_number :: "int option"

record search_results =
  documents :: "string list"
  metadata :: "meta list"
  error :: "string option"

text \<open>
  Modelled from the spec: \<^verbatim>\<open>SearchResults.is_empty\<close> is declared in
  \<^verbatim>\<open>vector_store.py\<close>, which is missing; the spec's branch "result set empty" is
  read as: the result holds no document.
\<close>

definition is_empty :: "search_results \<Rightarrow> bool" where
  "is_empty r = (documents r = [])"

text \<open>
  A lesson dict (keys \<^verbatim>\<open>number\<close>, \<^verbatim>\<open>title\<close>, \<^verbatim>\<open>link\<close>) and a course dict (keys
  \<^verbatim>\<open>title\<close>, \<^verbatim>\<open>link\<close>, \<^verbatim>\<open>instructor\<close>, \<^verbatim>\<open>lessons\<close>), every key optional and read
  with \<^verbatim>\<open>.get(key, default)\<close>.
\<close>

record lesson =
  l_number :: "int option"
  l_title :: "string option"
  l_link :: "string option"

record course_info =
  ci_title :: "string option"
  ci_link :: "string option"
  ci_instructor :: "string option"
  ci_lessons :: "lesson list option"

record vector_store =
  search :: "string \<Rightarrow> string option \<Rightarrow> int option \<Rightarrow> search_results"
  get_lesson_link :: "string \<Rightarrow> int \<Rightarrow> string option"
  get_course_link :: "string \<Rightarrow> string option"
  get_course_by_title :: "string \<Rightarrow> course_info option"
  get_all_course_titles :: "string list"

text \<open>Python's truth value of an optional string and of an optional integer.\<close>

definition truthy :: "string option \<Rightarrow> bool" where
  "truthy s = (case s of None \<Rightarrow> False | Some v \<Rightarrow> v \<noteq> [])"

definition truthy_int :: "int option \<Rightarrow> bool" where
  "truthy_int n = (case n of None \<Rightarrow> False | Some v \<Rightarrow> v \<noteq> 0)"

section \<open>The tools (\<^verbatim>\<open>search_tools.py\<close>)\<close>

text \<open>
  Both tool classes hold the store and \<^verbatim>\<open>last_sources\<close>, which \<^verbatim>\<open>__init__\<close> sets to
  \<^verbatim>\<open>[]\<close>. The attribute \<^verbatim>\<open>last_source_links\<close> does not exist before the first
  formatting assigns it: \<open>None\<close> is the missing attribute. A link in the list is a
  string or Python's \<^verbatim>\<open>None\<close>.
\<close>

record tool_obj =
  store :: vector_store
  last_sources :: "string list"
  last_source_links :: "string option list option"

definition new_tool :: "vector_store \<Rightarrow> tool_obj" where
  "new_tool vs = \<lparr>store = vs, last_sources = [], last_source_links = None\<rparr>"

subsection \<open>\<^verbatim>\<open>CourseSearchTool\<close>\<close>

text \<open>
  The body of the loop of \<^verbatim>\<open>_format_results\<close> for one (document, metadata) pair: the
  formatted block, the source label and the link.
\<close>

definition format_entry :: "vector_store \<Rightarrow> string \<Rightarrow> meta \<Rightarrow> string \<times> string \<times> string option" where
  "format_entry vs doc m =
     (let title = (case course_title m of None \<Rightarrow> ''unknown'' | Some t \<Rightarrow> t);
          lesson_num = lesson_number m;
          header = ''['' @ title;
          header = (case lesson_num of None \<Rightarrow> header
                    | Some n \<Rightarrow> header @ '' - Lesson '' @ str_int n);
          header = header @ '']'';
          source = title;
          source = (case lesson_num of None \<Rightarrow> source
                    | Some n \<Rightarrow> source @ '' - Lesson '' @ str_int n);
          link = None;
          link = (case lesson_num of None \<Rightarrow> link
                  | Some n \<Rightarrow> get_lesson_link vs title n);
          link = (if \<not> truthy link then get_course_link vs title else link)
      in (header @ [CHR 0x0A] @ doc, source, link))"

text \<open>
  The loop itself: \<^verbatim>\<open>zip(results.documents, results.metadata, strict=False)\<close> stops
  at the end of the shorter list; the three lists grow by \<^verbatim>\<open>append\<close>.
\<close>

fun format_loop ::
  "vector_store \<Rightarrow> string list \<Rightarrow> meta list \<Rightarrow>
   string list \<Rightarrow> string list \<Rightarrow> string option list \<Rightarrow>
   string list \<times> string list \<times> string option list" where
  "format_loop vs (doc # docs) (m # ms) formatted sources source_links =
     (case format_entry vs doc m of
        (block, source, link) \<Rightarrow>
          format_loop vs docs ms (formatted @ [block]) (sources @ [source]) (source_links @ [link]))"
| "format_loop vs docs ms formatted sources source_links = (formatted, sources, source_links)"

definition CourseSearchTool_format_results :: "tool_obj \<Rightarrow> search_results \<Rightarrow> string \<times> tool_obj" where
  "CourseSearchTool_format_results self results =
     (case format_loop (store self) (documents results) (metadata results) [] [] [] of
        (formatted, sources, source_links) \<Rightarrow>
          (join [CHR 0x0A, CHR 0x0A] formatted,
           self\<lparr>last_sources := sources, last_source_links := Some source_links\<rparr>))"

text \<open>The message of the empty-result branch of \<^verbatim>\<open>execute\<close>.\<close>

definition no_content_message :: "string option \<Rightarrow> int option \<Rightarrow> string" where
  "no_content_message course_name lesson_num =
     (let filter_info = [];
          filter_info = (if truthy course_name
                         then filter_info @ '' in course '' @ [CHR 0x27]
                                @ (case course_name of None \<Rightarrow> [] | Some c \<Rightarrow> c) @ [CHR 0x27]
                         else filter_info);
          filter_info = (if truthy_int lesson_num
                         then filter_info @ '' in lesson ''
                                @ (case lesson_num of None \<Rightarrow> [] | Some n \<Rightarrow> str_int n)
                         else filter_info)
      in ''No relevant content found'' @ filter_info @ ''.'')"

definition CourseSearchTool_execute ::
  "tool_obj \<Rightarrow> string \<Rightarrow> string option \<Rightarrow> int option \<Rightarrow> string \<times> tool_obj" where
  "CourseSearchTool_execute self query course_name lesson_num =
     (let results = search (store self) query course_name lesson_num in
      if truthy (error results)
      then ((case error results of None \<Rightarrow> [] | Some e \<Rightarrow> e), self)
      else if is_empty results
      then (no_content_message course_name lesson_num, self)
      else CourseSearchTool_format_results self results)"


subsection \<open>\<^verbatim>\<open>CourseOutlineTool\<close>\<close>

text \<open>The lines one lesson contributes to the outline.\<close>

definition lesson_lines :: "lesson \<Rightarrow> string list" where
  "lesson_lines l =
     (let lesson_num = (case l_number l of None \<Rightarrow> ''N/A'' | Some n \<Rightarrow> str_int n);
          lesson_title = (case l_title l of None \<Rightarrow> ''No title'' | Some t \<Rightarrow> t);
          lesson_link = (case l_link l of None \<Rightarrow> ''No link available'' | Some k \<Rightarrow> k)
      in [''  '' @ lesson_num @ ''. '' @ lesson_title]
         @ (if lesson_link \<noteq> [] \<and> lesson_link \<noteq> ''No link available''
            then [''     Link: '' @ lesson_link] else []))"

definition CourseOutlineTool_format_course_outline ::
  "tool_obj \<Rightarrow> course_info \<Rightarrow> string \<times> tool_obj" where
  "CourseOutlineTool_format_course_outline self info =
     (let title = (case ci_title info of None \<Rightarrow> ''Unknown Course'' | Some t \<Rightarrow> t);
          course_link = (case ci_link info of None \<Rightarrow> ''No link available'' | Some k \<Rightarrow> k);
          instructor = (case ci_instructor info of None \<Rightarrow> ''Unknown instructor'' | Some i \<Rightarrow> i);
          lessons = (case ci_lessons info of None \<Rightarrow> [] | Some ls \<Rightarrow> ls);
          self' = self\<lparr>last_sources := [title], last_source_links := Some [Some course_link]\<rparr>;
          formatted = [''**Course:** '' @ title,
                       ''**Instructor:** '' @ instructor,
                       ''**Course Link:** '' @ course_link,
                       []];
          formatted = (if lessons \<noteq> []
                       then formatted @ [''**Lessons:**''] @ concat (map lesson_lines lessons)
                              @ [[], ''**Total Lessons:** '' @ str_int (int (length lessons))]
                       else formatted @ [''**No lessons available**''])
      in (join [CHR 0x0A] formatted, self'))"

text \<open>
  \<^verbatim>\<open>if not course_info\<close> holds for \<^verbatim>\<open>None\<close> and for the dict without keys.
\<close>

definition no_keys :: "course_info \<Rightarrow> bool" where
  "no_keys d = (ci_title d = None \<and> ci_link d = None \<and> ci_instructor d = None
                 \<and> ci_lessons d = None)"

definition course_not_found_message :: "vector_store \<Rightarrow> string \<Rightarrow> string" where
  "course_not_found_message vs title =
     ''Course '' @ [CHR 0x27] @ title @ [CHR 0x27] @ '' not found. Available courses: ''
       @ join '', '' (get_all_course_titles vs)"

definition CourseOutlineTool_execute :: "tool_obj \<Rightarrow> string \<Rightarrow> string \<times> tool_obj" where
  "CourseOutlineTool_execute self title =
     (case get_course_by_title (store self) title of
        None \<Rightarrow> (course_not_found_message (store self) title, self)
      | Some d \<Rightarrow>
          if no_keys d then (course_not_found_message (store self) title, self)
          else CourseOutlineTool_format_course_outline self d)"

subsection \<open>The two concrete tools behind the \<^verbatim>\<open>Tool\<close> interface\<close>

datatype tool = CourseSearchTool tool_obj | CourseOutlineTool tool_obj

text \<open>
  The keyword arguments of a call, typed as the tool definitions' schemas type them.
  \<^verbatim>\<open>execute(**kwargs)\<close> with the other tool's keywords raises \<^verbatim>\<open>TypeError\<close>.
\<close>

datatype tool_args = SearchArgs string "string option" "int option" | OutlineArgs string

fun tool_obj_of :: "tool \<Rightarrow> tool_obj" where
  "tool_obj_of (CourseSearchTool self) = self"
| "tool_obj_of (CourseOutlineTool self) = self"

text \<open>\<^verbatim>\<open>tool.get_tool_definition().get("name")\<close>.\<close>

fun get_tool_definition_name :: "tool \<Rightarrow> string" where
  "get_tool_definition_name (CourseSearchTool self) = ''search_course_content''"
| "get_tool_definition_name (CourseOutlineTool self) = ''get_course_outline''"

fun tool_execute :: "tool \<Rightarrow> tool_args \<Rightarrow> py_error + string \<times> tool" where
  "tool_execute (CourseSearchTool self) (SearchArgs query course_name lesson_num) =
     (case CourseSearchTool_execute self query course_name lesson_num of
        (res, self') \<Rightarrow> Inr (res, CourseSearchTool self'))"
| "tool_execute (CourseOutlineTool self) (OutlineArgs title) =
     (case CourseOutlineTool_execute self title of
        (res, self') \<Rightarrow> Inr (res, CourseOutlineTool self'))"
| "tool_execute t a = Inl TypeError"

subsection \<open>\<^verbatim>\<open>ToolManager\<close>\<close>

text \<open>
  \<^verbatim>\<open>self.tools\<close> is a dict, iterated in insertion order: an association list with
  distinct keys, where assigning to a present key replaces the value in place and
  assigning to a new key appends.
\<close>

fun dict_set :: "('k \<times> 'v) list \<Rightarrow> 'k \<Rightarrow> 'v \<Rightarrow> ('k \<times> 'v) list" where
  "dict_set [] k v = [(k, v)]"
| "dict_set ((k', v') # kvs) k v =
     (if k' = k then (k, v) # kvs else (k', v') # dict_set kvs k v)"

record tool_manager =
  tools :: "(string \<times> tool) list"

definition new_tool_manager :: tool_manager where
  "new_tool_manager = \<lparr>tools = []\<rparr>"

definition register_tool :: "tool_manager \<Rightarrow> tool \<Rightarrow> py_error + tool_manager" where
  "register_tool tm t =
     (let tool_name = get_tool_definition_name t in
      if tool_name = []
      then Inl (ValueError (''Tool must have a '' @ [CHR 0x27] @ ''name'' @ [CHR 0x27]
                              @ '' in its definition''))
      else Inr (tm\<lparr>tools := dict_set (tools tm) tool_name t\<rparr>))"

text \<open>
  The tool object is shared between the dict and the call, so what \<^verbatim>\<open>execute\<close>
  assigns to its attributes is visible in the dict afterwards.
\<close>

definition execute_tool ::
  "tool_manager \<Rightarrow> string \<Rightarrow> tool_args \<Rightarrow> py_error + string \<times> tool_manager" where
  "execute_tool tm tool_name args =
     (case map_of (tools tm) tool_name of
        None \<Rightarrow> Inr (''Tool '' @ [CHR 0x27] @ tool_name @ [CHR 0x27] @ '' not found'', tm)
      | Some t \<Rightarrow>
          (case tool_execute t args of
             Inl e \<Rightarrow> Inl e
           | Inr (res, t') \<Rightarrow> Inr (res, tm\<lparr>tools := dict_set (tools tm) tool_name t'\<rparr>)))"

text \<open>
  The loop of \<^verbatim>\<open>get_last_sources\<close> over \<^verbatim>\<open>self.tools.values()\<close>; both tool classes
  have the attribute \<^verbatim>\<open>last_sources\<close>, and a non-empty list is true.
\<close>

fun first_sources :: "tool list \<Rightarrow> string list" where
  "first_sources [] = []"
| "first_sources (t # ts) =
     (if last_sources (tool_obj_of t) \<noteq> [] then last_sources (tool_obj_of t)
      else first_sources ts)"

definition get_last_sources :: "tool_manager \<Rightarrow> string list" where
  "get_last_sources tm = first_sources (map snd (tools tm))"

fun first_source_links :: "tool list \<Rightarrow> string option list" where
  "first_source_links [] = []"
| "first_source_links (t # ts) =
     (case last_source_links (tool_obj_of t) of
        None \<Rightarrow> first_source_links ts
      | Some links \<Rightarrow> if links \<noteq> [] then links else first_source_links ts)"

definition get_last_source_links :: "tool_manager \<Rightarrow> string option list" where
  "get_last_source_links tm = first_source_links (map snd (tools tm))"

definition reset_obj :: "tool_obj \<Rightarrow> tool_obj" where
  "reset_obj self =
     self\<lparr>last_sources := [],
          last_source_links := (case last_source_links self of None \<Rightarrow> None | Some l \<Rightarrow> Some [])\<rparr>"

fun reset_tool :: "tool \<Rightarrow> tool" where
  "reset_tool (CourseSearchTool self) = CourseSearchTool (reset_obj self)"
| "reset_tool (CourseOutlineTool self) = CourseOutlineTool (reset_obj self)"

definition reset_sources :: "tool_manager \<Rightarrow> tool_manager" where
  "reset_sources tm = tm\<lparr>tools := map (\<lambda>(k, t). (k, reset_tool t)) (tools tm)\<rparr>"


section \<open>Concrete inputs\<close>

definition fresh_session :: "int \<Rightarrow> session_manager" where
  "fresh_session mh = snd (create_session ''s1'' (new_manager mh))"

definition four_messages :: "(string \<times> string) list" where
  "four_messages = [(''user'', ''First''), (''assistant'', ''R1''),
                    (''user'', ''Second''), (''assistant'', ''R2'')]"

definition paired_session :: session_manager where
  "paired_session =
     \<lparr>max_history = 1,
      sessions = [''s1'' \<mapsto> [\<lparr>role = ''user'', content = ''First''\<rparr>,
                              \<lparr>role = ''assistant'', content = ''R1''\<rparr>]]\<rparr>"

definition demo_results :: "string \<Rightarrow> search_results" where
  "demo_results q =
     (if q = ''py'' then
        \<lparr>documents = [''intro'', ''loops'', ''misc''],
         metadata = [\<lparr>course_title = Some ''Py'', lesson_number = Some 0\<rparr>,
                     \<lparr>course_title = Some ''Py'', lesson_number = Some 1\<rparr>,
                     \<lparr>course_title = Some ''Ext'', lesson_number = None\<rparr>],
         error = None\<rparr>
      else if q = ''bad'' then
        \<lparr>documents = [], metadata = [], error = Some ''Search error''\<rparr>
      else if q = ''rag'' then
        \<lparr>documents = [''a'', ''b'', ''c''],
         metadata = [\<lparr>course_title = Some ''Py'', lesson_number = Some 1\<rparr>],
         error = None\<rparr>
      else \<lparr>documents = [], metadata = [], error = None\<rparr>)"

definition demo_course :: course_info where
  "demo_course =
     \<lparr>ci_title = Some ''Py'', ci_link = Some ''http://py'', ci_instructor = None,
      ci_lessons = Some [\<lparr>l_number = Some 0, l_title = Some ''Intro'', l_link = None\<rparr>]\<rparr>"

definition demo_store :: vector_store where
  "demo_store =
     \<lparr>search = (\<lambda>q cn ln. demo_results q),
      get_lesson_link = (\<lambda>t n. if t = ''Py'' \<and> n = 1 then Some ''http://py/1'' else None),
      get_course_link = (\<lambda>t. if t = ''Py'' then Some ''http://py'' else None),
      get_course_by_title = (\<lambda>t. if t = ''Py'' then Some demo_course else None),
      get_all_course_titles = [''Py'']\<rparr>"

text \<open>Tools that hold the citations of an earlier successful call.\<close>

definition used_tool :: tool_obj where
  "used_tool = snd (CourseSearchTool_execute (new_tool demo_store) ''py'' None None)"

definition used_outline :: tool_obj where
  "used_outline = snd (CourseOutlineTool_execute (new_tool demo_store) ''Py'')"

text \<open>A run of \<^verbatim>\<open>register_tool\<close> calls; the first exception ends the run.\<close>

fun register_all :: "tool_manager \<Rightarrow> tool list \<Rightarrow> py_error + tool_manager" where
  "register_all tm [] = Inr tm"
| "register_all tm (t # ts) =
     (case register_tool tm t of Inl e \<Rightarrow> Inl e | Inr tm' \<Rightarrow> register_all tm' ts)"

definition two_tools :: tool_manager where
  "two_tools = \<lparr>tools = [(''search_course_content'', CourseSearchTool used_tool),
                          (''get_course_outline'', CourseOutlineTool used_outline)]\<rparr>"

definition unused_tools :: tool_manager where
  "unused_tools = \<lparr>tools = [(''search_course_content'', CourseSearchTool (new_tool demo_store)),
                             (''get_course_outline'', CourseOutlineTool (new_tool demo_store))]\<rparr>"

text \<open>A manager whose first tool has produced no citation and whose second has.\<close>

definition late_tools :: tool_manager where
  "late_tools = \<lparr>tools = [(''search_course_content'', CourseSearchTool (new_tool demo_store)),
                           (''get_course_outline'', CourseOutlineTool used_outline)]\<rparr>"

text \<open>
  A store that answers every course lookup with the dict without keys, and an outline
  tool on that store that holds the citation of an earlier call.
\<close>

definition empty_course :: course_info where
  "empty_course = \<lparr>ci_title = None, ci_link = None, ci_instructor = None, ci_lessons = None\<rparr>"

definition bare_store :: vector_store where
  "bare_store = demo_store\<lparr>get_course_by_title := (\<lambda>t. Some empty_course)\<rparr>"

definition bare_outline :: tool_obj where
  "bare_outline = used_outline\<lparr>store := bare_store\<rparr>"

section \<open>The session store: history length and trimming\<close>

lemma add_message_known:
  "sessions m sid = Some h \<Longrightarrow>
   add_message m sid r c =
     Inr (m\<lparr>sessions := (sessions m)(sid \<mapsto>
            trim_history (max_history m) (h @ [\<lparr>role = r, content = c\<rparr>]))\<rparr>)"
  by (simp add: add_message_def)

lemma add_message_unknown:
  "sessions m sid = None \<Longrightarrow> add_message m sid r c = Inl (ValueError (not_found_msg sid))"
  by (simp add: add_message_def)

lemma trim_history_bound:
  assumes "0 \<le> mh" "int (length h) \<le> 2 * mh"
  shows "int (length (trim_history mh (h @ [x]))) \<le> 2 * mh"
  using assms by (auto simp: trim_history_def)

lemma trim_history_parity:
  assumes "1 \<le> mh"
  shows "even (length (trim_history mh (h @ [x]))) \<longleftrightarrow> odd (length h)"
proof (cases "int (length (h @ [x])) > mh * 2")
  case True
  with assms have "2 \<le> length (h @ [x])" by simp
  then have "length (trim_history mh (h @ [x])) + 2 = length (h @ [x])"
    using True by (simp add: trim_history_def)
  then show ?thesis by (metis even_add even_numeral length_append_singleton even_Suc)
next
  case False
  then show ?thesis by (simp add: trim_history_def)
qed

lemma add_messages_inv:
  assumes "sessions m sid = Some h" "0 \<le> max_history m" "int (length h) \<le> 2 * max_history m"
  shows "\<exists>m'. add_messages m sid msgs = Inr m' \<and> max_history m' = max_history m
            \<and> sessions m' sid \<noteq> None
            \<and> int (length (history_of m' sid)) \<le> 2 * max_history m
            \<and> (even (length (history_of m' sid)) \<longleftrightarrow>
                  max_history m = 0 \<or> even (length h + length msgs))"
  using assms
proof (induction msgs arbitrary: m h)
  case Nil
  then show ?case by (auto simp: history_of_def)
next
  case (Cons p msgs)
  obtain r c where p: "p = (r, c)" by (cases p)
  define h1 where "h1 = trim_history (max_history m) (h @ [\<lparr>role = r, content = c\<rparr>])"
  define m1 where "m1 = m\<lparr>sessions := (sessions m)(sid \<mapsto> h1)\<rparr>"
  have step: "add_message m sid r c = Inr m1"
    unfolding m1_def h1_def using Cons.prems(1) by (rule add_message_known)
  have mh1: "max_history m1 = max_history m" by (simp add: m1_def)
  have b: "int (length h1) \<le> 2 * max_history m1"
    unfolding h1_def mh1 using Cons.prems(2) Cons.prems(3) by (rule trim_history_bound)
  have s: "sessions m1 sid = Some h1" by (simp add: m1_def)
  have mh: "0 \<le> max_history m1" using Cons.prems(2) mh1 by simp
  from Cons.IH [OF s mh b]
  obtain m' where m': "add_messages m1 sid msgs = Inr m'" "max_history m' = max_history m1"
      "sessions m' sid \<noteq> None" "int (length (history_of m' sid)) \<le> 2 * max_history m1"
      "even (length (history_of m' sid)) \<longleftrightarrow> max_history m1 = 0 \<or> even (length h1 + length msgs)"
    by blast
  have par: "max_history m = 0 \<or> (even (length h1) \<longleftrightarrow> odd (length h))"
  proof (cases "max_history m = 0")
    case True then show ?thesis by simp
  next
    case False
    with Cons.prems(2) have "1 \<le> max_history m" by linarith
    then have "even (length h1) \<longleftrightarrow> odd (length h)"
      unfolding h1_def by (rule trim_history_parity)
    then show ?thesis by blast
  qed
  have run: "add_messages m sid (p # msgs) = Inr m'"
    using step m'(1) p by simp
  have ev: "even (length (history_of m' sid)) \<longleftrightarrow>
                  max_history m = 0 \<or> even (length h + length (p # msgs))"
    using m'(5) par mh1 by auto
  show ?case using run ev m'(2,3,4) mh1 by simp
qed

lemma add_messages_zero:
  assumes "sessions m sid = Some []" "max_history m = 0"
  shows "\<exists>m'. add_messages m sid msgs = Inr m' \<and> sessions m' sid = Some []
            \<and> max_history m' = 0"
  using assms
proof (induction msgs arbitrary: m)
  case Nil
  then show ?case by simp
next
  case (Cons p msgs)
  obtain r c where p: "p = (r, c)" by (cases p)
  define m1 where "m1 = m\<lparr>sessions := (sessions m)(sid \<mapsto> [])\<rparr>"
  have "add_message m sid r c = Inr m1"
    using Cons.prems by (simp add: add_message_def trim_history_def m1_def)
  moreover have "sessions m1 sid = Some []" "max_history m1 = 0"
    using Cons.prems by (simp_all add: m1_def)
  ultimately show ?case using Cons.IH [of m1] p by simp
qed

lemma add_message_trim:
  assumes "sessions m sid = Some h"
      and "int (length (h @ [\<lparr>role = r, content = c\<rparr>])) > max_history m * 2"
  shows "add_message m sid r c =
           Inr (m\<lparr>sessions := (sessions m)(sid \<mapsto> drop 2 (h @ [\<lparr>role = r, content = c\<rparr>]))\<rparr>)"
  using assms by (simp add: add_message_def trim_history_def)

lemma four_messages_run:
  "add_messages (fresh_session 1) ''s1'' four_messages =
     Inr \<lparr>max_history = 1,
          sessions = [''s1'' \<mapsto> [\<lparr>role = ''user'', content = ''Second''\<rparr>,
                                  \<lparr>role = ''assistant'', content = ''R2''\<rparr>]]\<rparr>"
  by (simp add: four_messages_def fresh_session_def create_session_def new_manager_def
        add_message_def trim_history_def)

lemma fresh_session_simps:
  "sessions (fresh_session mh) ''s1'' = Some []"
  "sessions (fresh_session mh) ''nonexistent'' = None"
  "max_history (fresh_session mh) = mh"
  by (simp_all add: fresh_session_def create_session_def new_manager_def)

text \<open>
  C2, as the code has it. A single \<^verbatim>\<open>add_message\<close> on a new session of a manager with
  \<^verbatim>\<open>max_history = 2\<close> leaves one message, so the length is not always even. What holds
  for a session created empty and any run of \<^verbatim>\<open>add_message\<close> calls on it, with
  \<^verbatim>\<open>max_history\<close> not negative: every call succeeds, the stored length is at most
  \<^verbatim>\<open>2 * max_history\<close>, and it is even exactly when \<^verbatim>\<open>max_history\<close> is 0 or the number
  of calls is even.
\<close>

theorem history_length_bound_parity:
  assumes "sessions m sid = Some []" "0 \<le> max_history m"
  shows "\<exists>m'. add_messages m sid msgs = Inr m'
            \<and> int (length (history_of m' sid)) \<le> 2 * max_history m
            \<and> (even (length (history_of m' sid)) \<longleftrightarrow> max_history m = 0 \<or> even (length msgs))"
proof -
  have "int (length ([] :: message list)) \<le> 2 * max_history m" using assms(2) by simp
  from add_messages_inv [OF assms(1) assms(2) this, of msgs]
  show ?thesis by auto
qed

theorem history_length_bound_parity_witness:
  "sessions (fresh_session 1) ''s1'' = Some [] \<and> 0 \<le> max_history (fresh_session 1)
   \<and> (\<exists>m'. add_messages (fresh_session 1) ''s1'' four_messages = Inr m'
            \<and> int (length (history_of m' ''s1'')) \<le> 2 * max_history (fresh_session 1)
            \<and> (even (length (history_of m' ''s1'')) \<longleftrightarrow>
                  max_history (fresh_session 1) = 0 \<or> even (length four_messages)))"
proof -
  have a: "sessions (fresh_session 1) ''s1'' = Some []"
    by (simp add: fresh_session_simps)
  have b: "0 \<le> max_history (fresh_session 1)"
    by (simp add: fresh_session_simps)
  show ?thesis using a b history_length_bound_parity [OF a b, of four_messages] by simp
qed

text \<open>
  The first \<^verbatim>\<open>add_message\<close> on a new session with \<^verbatim>\<open>max_history = 2\<close> succeeds and
  leaves a history of odd length.
\<close>

theorem history_length_odd_counterexample:
  "\<not> isl (add_message (fresh_session 2) ''s1'' ''user'' ''Hello'')
   \<and> odd (length (history_of (projr (add_message (fresh_session 2) ''s1'' ''user'' ''Hello'')) ''s1''))"
  by (simp add: fresh_session_def create_session_def new_manager_def
        add_message_def trim_history_def history_of_def)

text \<open>
  C4, as the code has it. When the appended list is longer than \<^verbatim>\<open>2 * max_history\<close>,
  the stored history is the appended list without its first two entries
  (\<^verbatim>\<open>[2:]\<close>); with \<^verbatim>\<open>max_history\<close> at least 1 these are exactly two entries. With
  \<^verbatim>\<open>max_history = 0\<close> the appended list of a new session has one entry and that single
  entry is dropped, so the length is 0 after every \<^verbatim>\<open>add_message\<close>. With
  \<^verbatim>\<open>max_history = 1\<close> the four messages (user, First), (assistant, R1),
  (user, Second), (assistant, R2) leave the last pair.
\<close>

theorem add_message_trims:
  assumes "sessions m sid = Some h"
      and "int (length (h @ [\<lparr>role = r, content = c\<rparr>])) > max_history m * 2"
      and "sessions m0 sid0 = Some []" and "max_history m0 = 0"
  shows "(\<exists>m'. add_message m sid r c = Inr m'
            \<and> history_of m' sid = drop 2 (h @ [\<lparr>role = r, content = c\<rparr>])
            \<and> (1 \<le> max_history m \<longrightarrow>
                  length (history_of m' sid) + 2 = length (h @ [\<lparr>role = r, content = c\<rparr>])))
       \<and> (\<exists>m'. add_messages m0 sid0 msgs = Inr m' \<and> length (history_of m' sid0) = 0)
       \<and> (\<exists>m'. add_messages (fresh_session 1) ''s1'' four_messages = Inr m'
            \<and> length (history_of m' ''s1'') = 2
            \<and> history_of m' ''s1'' = [\<lparr>role = ''user'', content = ''Second''\<rparr>,
                                         \<lparr>role = ''assistant'', content = ''R2''\<rparr>])"
proof (intro conjI)
  define h' where "h' = h @ [\<lparr>role = r, content = c\<rparr>]"
  have run: "add_message m sid r c = Inr (m\<lparr>sessions := (sessions m)(sid \<mapsto> drop 2 h')\<rparr>)"
    unfolding h'_def using assms(1) assms(2) by (rule add_message_trim)
  have "1 \<le> max_history m \<Longrightarrow> 2 \<le> length h'"
    using assms(2) by (simp add: h'_def)
  then have len: "1 \<le> max_history m \<longrightarrow> length (drop 2 h') + 2 = length h'"
    by auto
  have "\<exists>m'. add_message m sid r c = Inr m'
            \<and> history_of m' sid = drop 2 h'
            \<and> (1 \<le> max_history m \<longrightarrow> length (history_of m' sid) + 2 = length h')"
    using run len by (simp add: history_of_def)
  then show "\<exists>m'. add_message m sid r c = Inr m'
            \<and> history_of m' sid = drop 2 (h @ [\<lparr>role = r, content = c\<rparr>])
            \<and> (1 \<le> max_history m \<longrightarrow>
                  length (history_of m' sid) + 2 = length (h @ [\<lparr>role = r, content = c\<rparr>]))"
    unfolding h'_def .
next
  from add_messages_zero [OF assms(3) assms(4), of msgs]
  show "\<exists>m'. add_messages m0 sid0 msgs = Inr m' \<and> length (history_of m' sid0) = 0"
    by (auto simp: history_of_def)
next
  show "\<exists>m'. add_messages (fresh_session 1) ''s1'' four_messages = Inr m'
            \<and> length (history_of m' ''s1'') = 2
            \<and> history_of m' ''s1'' = [\<lparr>role = ''user'', content = ''Second''\<rparr>,
                                         \<lparr>role = ''assistant'', content = ''R2''\<rparr>]"
    by (simp add: four_messages_run history_of_def)
qed

theorem add_message_trims_witness:
  "sessions paired_session ''s1'' = Some [\<lparr>role = ''user'', content = ''First''\<rparr>,
                                           \<lparr>role = ''assistant'', content = ''R1''\<rparr>]
   \<and> int (length ([\<lparr>role = ''user'', content = ''First''\<rparr>,
                    \<lparr>role = ''assistant'', content = ''R1''\<rparr>]
                   @ [\<lparr>role = ''user'', content = ''Second''\<rparr>])) > max_history paired_session * 2
   \<and> sessions (fresh_session 0) ''s1'' = Some [] \<and> max_history (fresh_session 0) = 0
   \<and> 1 \<le> max_history paired_session
   \<and> (\<exists>m'. add_message paired_session ''s1'' ''user'' ''Second'' = Inr m'
          \<and> history_of m' ''s1'' = [\<lparr>role = ''user'', content = ''Second''\<rparr>]
          \<and> length (history_of m' ''s1'') + 2 = 3)
   \<and> (\<exists>m'. add_messages (fresh_session 0) ''s1'' four_messages = Inr m'
          \<and> length (history_of m' ''s1'') = 0)"
proof -
  have a: "sessions paired_session ''s1'' = Some [\<lparr>role = ''user'', content = ''First''\<rparr>,
                                                   \<lparr>role = ''assistant'', content = ''R1''\<rparr>]"
    by (simp add: paired_session_def)
  have b: "int (length ([\<lparr>role = ''user'', content = ''First''\<rparr>,
                         \<lparr>role = ''assistant'', content = ''R1''\<rparr>]
                        @ [\<lparr>role = ''user'', content = ''Second''\<rparr>])) > max_history paired_session * 2"
    by (simp add: paired_session_def)
  have c: "sessions (fresh_session 0) ''s1'' = Some []" by (simp add: fresh_session_simps)
  have d: "max_history (fresh_session 0) = 0" by (simp add: fresh_session_simps)
  have e: "1 \<le> max_history paired_session" by (simp add: paired_session_def)
  show ?thesis
    using a b c d e add_message_trims [OF a b c d, of four_messages] by simp
qed

text \<open>
  With \<^verbatim>\<open>max_history = 0\<close> the appended list of a new session exceeds the limit and
  the call drops one entry, the only one there is.
\<close>

theorem add_message_single_drop_counterexample:
  "history_of (fresh_session 0) ''s1'' = []
   \<and> int (length (history_of (fresh_session 0) ''s1'' @ [\<lparr>role = ''user'', content = ''Test''\<rparr>]))
        > max_history (fresh_session 0) * 2
   \<and> \<not> isl (add_message (fresh_session 0) ''s1'' ''user'' ''Test'')
   \<and> length (history_of (fresh_session 0) ''s1'' @ [\<lparr>role = ''user'', content = ''Test''\<rparr>])
       - length (history_of (projr (add_message (fresh_session 0) ''s1'' ''user'' ''Test'')) ''s1'') = 1"
  by (simp add: fresh_session_def create_session_def new_manager_def
        add_message_def trim_history_def history_of_def)

section \<open>The session store: unknown and known ids\<close>

lemma new_manager_simps:
  "sessions (new_manager mh) sid = None"
  by (simp add: new_manager_def)

text \<open>
  C8. On an id that is not in the store, also when the store holds no session at all,
  \<^verbatim>\<open>get_session_history\<close> and \<^verbatim>\<open>add_message\<close> raise the not-found error (the
  source's \<^verbatim>\<open>ValueError\<close> with the message "Session ... not found"), while
  \<^verbatim>\<open>delete_session\<close> returns \<^verbatim>\<open>False\<close> and changes nothing; on a known id
  \<^verbatim>\<open>delete_session\<close> returns \<^verbatim>\<open>True\<close>, the id is gone from the store and
  \<^verbatim>\<open>session_exists\<close> is \<^verbatim>\<open>False\<close> afterwards.
\<close>

theorem missing_session_asymmetry:
  "(sessions m sid = None \<longrightarrow>
      get_session_history m sid = Inl (ValueError (not_found_msg sid))
      \<and> add_message m sid r c = Inl (ValueError (not_found_msg sid))
      \<and> delete_session m sid = (False, m))
   \<and> (sessions m sid = Some h \<longrightarrow>
      fst (delete_session m sid) = True
      \<and> session_exists (snd (delete_session m sid)) sid = False
      \<and> sessions (snd (delete_session m sid)) sid = None)"
  by (simp add: get_session_history_def add_message_def delete_session_def session_exists_def)

theorem missing_session_asymmetry_witness:
  "sessions (new_manager 2) ''nonexistent'' = None
   \<and> sessions (fresh_session 2) ''nonexistent'' = None
   \<and> sessions (fresh_session 2) ''s1'' = Some []
   \<and> get_session_history (new_manager 2) ''nonexistent''
       = Inl (ValueError ''Session nonexistent not found'')
   \<and> add_message (new_manager 2) ''nonexistent'' ''user'' ''Test''
       = Inl (ValueError ''Session nonexistent not found'')
   \<and> delete_session (new_manager 2) ''nonexistent'' = (False, new_manager 2)
   \<and> get_session_history (fresh_session 2) ''nonexistent''
       = Inl (ValueError ''Session nonexistent not found'')
   \<and> add_message (fresh_session 2) ''nonexistent'' ''user'' ''Test''
       = Inl (ValueError ''Session nonexistent not found'')
   \<and> delete_session (fresh_session 2) ''nonexistent'' = (False, fresh_session 2)
   \<and> fst (delete_session (fresh_session 2) ''s1'') = True
   \<and> session_exists (snd (delete_session (fresh_session 2) ''s1'')) ''s1'' = False"
proof -
  have z: "sessions (new_manager 2) ''nonexistent'' = None"
    by (simp add: new_manager_simps)
  have a: "sessions (fresh_session 2) ''nonexistent'' = None"
    by (simp add: fresh_session_simps)
  have b: "sessions (fresh_session 2) ''s1'' = Some []"
    by (simp add: fresh_session_simps)
  have msg: "not_found_msg ''nonexistent'' = ''Session nonexistent not found''"
    by (simp add: not_found_msg_def)
  note empty_store = missing_session_asymmetry [THEN conjunct1, THEN mp, OF z, of "''user''" "''Test''"]
  note missing = missing_session_asymmetry [THEN conjunct1, THEN mp, OF a, of "''user''" "''Test''"]
  note known = missing_session_asymmetry [THEN conjunct2, THEN mp, OF b]
  show ?thesis
    using z a b empty_store missing known by (simp only: msg)
qed

section \<open>The search tool: the formatting loop\<close>

lemma format_loop_map:
  "format_loop vs docs ms formatted sources source_links =
     (formatted @ map (\<lambda>(d, m). fst (format_entry vs d m)) (zip docs ms),
      sources @ map (\<lambda>(d, m). fst (snd (format_entry vs d m))) (zip docs ms),
      source_links @ map (\<lambda>(d, m). snd (snd (format_entry vs d m))) (zip docs ms))"
proof (induction vs docs ms formatted sources source_links rule: format_loop.induct)
  case (1 vs doc docs m ms formatted sources source_links)
  obtain block source link where e: "format_entry vs doc m = (block, source, link)"
    by (cases "format_entry vs doc m") auto
  show ?case using 1 [OF e [symmetric] refl] e by simp
qed simp_all

lemma format_entry_block:
  "fst (format_entry vs doc m) =
     ''['' @ (case course_title m of None \<Rightarrow> ''unknown'' | Some t \<Rightarrow> t)
       @ (case lesson_number m of None \<Rightarrow> [] | Some n \<Rightarrow> '' - Lesson '' @ str_int n)
       @ '']'' @ [CHR 0x0A] @ doc"
  by (simp add: format_entry_def Let_def split: option.splits)

lemma zip_take_min:
  "zip (take (min (length xs) (length ys)) xs) (take (min (length xs) (length ys)) ys) = zip xs ys"
  by (simp add: take_zip [symmetric])

lemma format_results_state:
  "CourseSearchTool_format_results self r =
     (join [CHR 0x0A, CHR 0x0A] (fst (format_loop (store self) (documents r) (metadata r) [] [] [])),
      self\<lparr>last_sources := fst (snd (format_loop (store self) (documents r) (metadata r) [] [] [])),
           last_source_links := Some (snd (snd (format_loop (store self) (documents r) (metadata r) [] [] [])))\<rparr>)"
  by (simp add: CourseSearchTool_format_results_def split: prod.splits)

lemma execute_formats:
  assumes "\<not> truthy (error (search (store self) q cn ln))"
      and "\<not> is_empty (search (store self) q cn ln)"
  shows "CourseSearchTool_execute self q cn ln =
           CourseSearchTool_format_results self (search (store self) q cn ln)"
  using assms by (simp add: CourseSearchTool_execute_def Let_def)

lemma execute_keeps_self:
  assumes "truthy (error (search (store self) q cn ln)) \<or> is_empty (search (store self) q cn ln)"
  shows "snd (CourseSearchTool_execute self q cn ln) = self"
  using assms by (auto simp: CourseSearchTool_execute_def Let_def)

lemma execute_ignores_prior:
  "snd (CourseSearchTool_execute (self\<lparr>last_sources := a, last_source_links := b\<rparr>) q cn ln)
     = (snd (CourseSearchTool_execute self q cn ln))\<lparr>last_sources :=
          (if truthy (error (search (store self) q cn ln)) \<or> is_empty (search (store self) q cn ln)
           then a else last_sources (snd (CourseSearchTool_execute self q cn ln))),
        last_source_links :=
          (if truthy (error (search (store self) q cn ln)) \<or> is_empty (search (store self) q cn ln)
           then b else last_source_links (snd (CourseSearchTool_execute self q cn ln)))\<rparr>"
  by (simp add: CourseSearchTool_execute_def Let_def format_results_state)

lemma outline_found:
  assumes "get_course_by_title (store self) t = Some d" "\<not> no_keys d"
  shows "snd (CourseOutlineTool_execute self t) =
           self\<lparr>last_sources := [case ci_title d of None \<Rightarrow> ''Unknown Course'' | Some x \<Rightarrow> x],
                last_source_links := Some [Some (case ci_link d of None \<Rightarrow> ''No link available'' | Some k \<Rightarrow> k)]\<rparr>"
  using assms
  by (simp add: CourseOutlineTool_execute_def CourseOutlineTool_format_course_outline_def Let_def)

lemma outline_absent:
  assumes "get_course_by_title (store self) t = None
           \<or> (\<exists>d. get_course_by_title (store self) t = Some d \<and> no_keys d)"
  shows "snd (CourseOutlineTool_execute self t) = self"
  using assms by (auto simp: CourseOutlineTool_execute_def)

lemma outline_ignores_prior:
  assumes "get_course_by_title (store self) t = Some d" "\<not> no_keys d"
  shows "snd (CourseOutlineTool_execute (self\<lparr>last_sources := a, last_source_links := b\<rparr>) t)
           = snd (CourseOutlineTool_execute self t)"
proof -
  have f: "get_course_by_title (store (self\<lparr>last_sources := a, last_source_links := b\<rparr>)) t = Some d"
    using assms(1) by simp
  show ?thesis
    using outline_found [OF f assms(2)] outline_found [OF assms] by simp
qed

subsection \<open>The concrete store and tools, evaluated\<close>

lemma demo_store_simps:
  "search demo_store q cn ln = demo_results q"
  "get_lesson_link demo_store t n = (if t = ''Py'' \<and> n = 1 then Some ''http://py/1'' else None)"
  "get_course_link demo_store t = (if t = ''Py'' then Some ''http://py'' else None)"
  "get_course_by_title demo_store t = (if t = ''Py'' then Some demo_course else None)"
  "get_all_course_titles demo_store = [''Py'']"
  by (simp_all add: demo_store_def)

lemma demo_results_simps:
  "demo_results ''py'' = \<lparr>documents = [''intro'', ''loops'', ''misc''],
         metadata = [\<lparr>course_title = Some ''Py'', lesson_number = Some 0\<rparr>,
                     \<lparr>course_title = Some ''Py'', lesson_number = Some 1\<rparr>,
                     \<lparr>course_title = Some ''Ext'', lesson_number = None\<rparr>],
         error = None\<rparr>"
  "demo_results ''bad'' = \<lparr>documents = [], metadata = [], error = Some ''Search error''\<rparr>"
  "demo_results ''rag'' = \<lparr>documents = [''a'', ''b'', ''c''],
         metadata = [\<lparr>course_title = Some ''Py'', lesson_number = Some 1\<rparr>],
         error = None\<rparr>"
  "demo_results ''none'' = \<lparr>documents = [], metadata = [], error = None\<rparr>"
  by (simp_all add: demo_results_def)

lemma str_int_small: "str_int 0 = ''0''" "str_int 1 = ''1''"
  by (simp_all add: str_int_def str_nat.simps digit_char_def)

lemma used_tool_simps:
  "store used_tool = demo_store"
  "last_sources used_tool = [''Py - Lesson 0'', ''Py - Lesson 1'', ''Ext'']"
  "last_source_links used_tool = Some [Some ''http://py'', Some ''http://py/1'', None]"
  by (simp_all add: used_tool_def new_tool_def CourseSearchTool_execute_def Let_def
        demo_store_simps demo_results_simps truthy_def is_empty_def
        CourseSearchTool_format_results_def format_entry_def str_int_small)

lemma demo_search: "search (store used_tool) q cn ln = demo_results q"
  by (simp add: used_tool_simps demo_store_simps)

lemma used_outline_simps:
  "store used_outline = demo_store"
  "last_sources used_outline = [''Py'']"
  "last_source_links used_outline = Some [Some ''http://py'']"
  by (simp_all add: used_outline_def new_tool_def CourseOutlineTool_execute_def
        CourseOutlineTool_format_course_outline_def Let_def demo_store_simps demo_course_def
        no_keys_def)

lemma bare_outline_simps:
  "get_course_by_title (store bare_outline) t = Some empty_course"
  "last_sources bare_outline = [''Py'']"
  "last_source_links bare_outline = Some [Some ''http://py'']"
  "no_keys empty_course"
  by (simp_all add: bare_outline_def bare_store_def used_outline_simps empty_course_def no_keys_def)

section \<open>The search tool: formatted text\<close>

text \<open>
  C5. When the store reports no error and the result is not empty, \<^verbatim>\<open>execute\<close> returns
  the blocks of the (document, metadata) pairs in the order the store gave them, joined
  by a blank line. A block is the header, a newline and the document text; the header is
  "[" and the course title, then " - Lesson n" exactly when the lesson number is not
  \<^verbatim>\<open>None\<close>, then "]". \<^verbatim>\<open>_format_results\<close> builds this text for every result it is
  given. (A metadata dict without the key \<^verbatim>\<open>course_title\<close> gives the title "unknown".)
\<close>

theorem execute_formats_blocks:
  assumes "\<not> truthy (error (search (store self) q cn ln))"
      and "\<not> is_empty (search (store self) q cn ln)"
  shows "fst (CourseSearchTool_execute self q cn ln) =
           join [CHR 0x0A, CHR 0x0A]
             (map (\<lambda>(doc, m).
                     ''['' @ (case course_title m of None \<Rightarrow> ''unknown'' | Some t \<Rightarrow> t)
                       @ (case lesson_number m of None \<Rightarrow> [] | Some n \<Rightarrow> '' - Lesson '' @ str_int n)
                       @ '']'' @ [CHR 0x0A] @ doc)
                  (zip (documents (search (store self) q cn ln))
                       (metadata (search (store self) q cn ln))))
       \<and> fst (CourseSearchTool_format_results self r) =
           join [CHR 0x0A, CHR 0x0A]
             (map (\<lambda>(doc, m).
                     ''['' @ (case course_title m of None \<Rightarrow> ''unknown'' | Some t \<Rightarrow> t)
                       @ (case lesson_number m of None \<Rightarrow> [] | Some n \<Rightarrow> '' - Lesson '' @ str_int n)
                       @ '']'' @ [CHR 0x0A] @ doc)
                  (zip (documents r) (metadata r)))"
  by (simp add: execute_formats [OF assms] CourseSearchTool_format_results_def
        format_loop_map format_entry_block)

text \<open>
  Lesson numbers 0, 1 and \<^verbatim>\<open>None\<close>: the first two headers carry the lesson, the third
  does not.
\<close>

theorem execute_formats_blocks_witness:
  "\<not> truthy (error (search (store used_tool) ''py'' None None))
   \<and> \<not> is_empty (search (store used_tool) ''py'' None None)
   \<and> fst (CourseSearchTool_execute used_tool ''py'' None None) =
       ''[Py - Lesson 0]'' @ [CHR 0x0A] @ ''intro'' @ [CHR 0x0A, CHR 0x0A]
       @ ''[Py - Lesson 1]'' @ [CHR 0x0A] @ ''loops'' @ [CHR 0x0A, CHR 0x0A]
       @ ''[Ext]'' @ [CHR 0x0A] @ ''misc''"
proof -
  have a: "\<not> truthy (error (search (store used_tool) ''py'' None None))"
    by (simp add: demo_search demo_results_simps truthy_def)
  have b: "\<not> is_empty (search (store used_tool) ''py'' None None)"
    by (simp add: demo_search demo_results_simps is_empty_def)
  show ?thesis
    using a b execute_formats_blocks [OF a b]
    by (simp add: demo_search demo_results_simps str_int_small)
qed

text \<open>
  C10. When the documents and the metadata of a result differ in length,
  \<^verbatim>\<open>_format_results\<close> produces as many blocks as the shorter of the two has entries,
  stores source and link lists of that length, and returns the text that the two
  sequences cut to that length give. The model of \<^verbatim>\<open>_format_results\<close> has no error
  result: \<^verbatim>\<open>zip(..., strict=False)\<close> does not raise.
\<close>

theorem format_results_truncates:
  assumes "length (documents r) \<noteq> length (metadata r)"
  shows "length (fst (format_loop (store self) (documents r) (metadata r) [] [] []))
           = min (length (documents r)) (length (metadata r))
       \<and> length (last_sources (snd (CourseSearchTool_format_results self r)))
           = min (length (documents r)) (length (metadata r))
       \<and> (\<exists>links. last_source_links (snd (CourseSearchTool_format_results self r)) = Some links
            \<and> length links = min (length (documents r)) (length (metadata r)))
       \<and> fst (CourseSearchTool_format_results self r)
           = join [CHR 0x0A, CHR 0x0A]
               (fst (format_loop (store self)
                       (take (min (length (documents r)) (length (metadata r))) (documents r))
                       (take (min (length (documents r)) (length (metadata r))) (metadata r))
                       [] [] []))"
  by (simp add: format_results_state format_loop_map zip_take_min)

theorem format_results_truncates_witness:
  "length (documents (demo_results ''rag'')) \<noteq> length (metadata (demo_results ''rag''))
   \<and> length (fst (format_loop (store used_tool) (documents (demo_results ''rag''))
                       (metadata (demo_results ''rag'')) [] [] [])) = 1
   \<and> length (last_sources (snd (CourseSearchTool_format_results used_tool (demo_results ''rag'')))) = 1
   \<and> (\<exists>links. last_source_links (snd (CourseSearchTool_format_results used_tool (demo_results ''rag'')))
                 = Some links \<and> length links = 1)"
proof -
  have a: "length (documents (demo_results ''rag'')) \<noteq> length (metadata (demo_results ''rag''))"
    by (simp add: demo_results_simps)
  show ?thesis
    using a format_results_truncates [OF a, of used_tool] by (simp add: demo_results_simps)
qed

section \<open>The search tool: the empty-result message\<close>

text \<open>
  C3, evaluated on the code. The store returns no document and no error. With
  \<^verbatim>\<open>lesson_number=0\<close> the message is "No relevant content found." without " in lesson 0":
  \<^verbatim>\<open>if lesson_number:\<close> tests the truth value, and 0 is false. With \<^verbatim>\<open>lesson_number=1\<close>,
  with a course name, with both and with no filter the message is as the claim says.
\<close>

theorem execute_empty_result_messages:
  "fst (CourseSearchTool_execute (new_tool demo_store) ''none'' None (Some 0))
     = ''No relevant content found.''
   \<and> fst (CourseSearchTool_execute (new_tool demo_store) ''none'' None (Some 1))
     = ''No relevant content found in lesson 1.''
   \<and> fst (CourseSearchTool_execute (new_tool demo_store) ''none'' (Some ''X'') None)
     = ''No relevant content found in course '' @ [CHR 0x27] @ ''X'' @ [CHR 0x27] @ ''.''
   \<and> fst (CourseSearchTool_execute (new_tool demo_store) ''none'' (Some ''X'') (Some 1))
     = ''No relevant content found in course '' @ [CHR 0x27] @ ''X'' @ [CHR 0x27]
         @ '' in lesson 1.''
   \<and> fst (CourseSearchTool_execute (new_tool demo_store) ''none'' None None)
     = ''No relevant content found.''"
  by (simp add: CourseSearchTool_execute_def Let_def new_tool_def demo_store_simps
        demo_results_simps truthy_def truthy_int_def is_empty_def no_content_message_def
        str_int_small)

section \<open>The citation state of the tools\<close>

text \<open>
  C9. When \<^verbatim>\<open>execute\<close> of the search tool takes the error branch or the empty-result
  branch, \<^verbatim>\<open>last_sources\<close> and \<^verbatim>\<open>last_source_links\<close> are what they were before the
  call.
\<close>

theorem execute_failure_keeps_citations:
  assumes "truthy (error (search (store self) q cn ln)) \<or> is_empty (search (store self) q cn ln)"
  shows "last_sources (snd (CourseSearchTool_execute self q cn ln)) = last_sources self
       \<and> last_source_links (snd (CourseSearchTool_execute self q cn ln)) = last_source_links self"
  using execute_keeps_self [OF assms] by simp

theorem execute_failure_keeps_citations_witness:
  "(truthy (error (search (store used_tool) ''bad'' None None))
      \<or> is_empty (search (store used_tool) ''bad'' None None))
   \<and> (truthy (error (search (store used_tool) ''none'' None None))
      \<or> is_empty (search (store used_tool) ''none'' None None))
   \<and> last_sources (snd (CourseSearchTool_execute used_tool ''bad'' None None))
       = [''Py - Lesson 0'', ''Py - Lesson 1'', ''Ext'']
   \<and> last_source_links (snd (CourseSearchTool_execute used_tool ''bad'' None None))
       = Some [Some ''http://py'', Some ''http://py/1'', None]
   \<and> last_sources (snd (CourseSearchTool_execute used_tool ''none'' None None))
       = [''Py - Lesson 0'', ''Py - Lesson 1'', ''Ext'']
   \<and> last_source_links (snd (CourseSearchTool_execute used_tool ''none'' None None))
       = Some [Some ''http://py'', Some ''http://py/1'', None]"
proof -
  have a: "truthy (error (search (store used_tool) ''bad'' None None))
      \<or> is_empty (search (store used_tool) ''bad'' None None)"
    by (simp add: demo_search demo_results_simps truthy_def)
  have b: "truthy (error (search (store used_tool) ''none'' None None))
      \<or> is_empty (search (store used_tool) ''none'' None None)"
    by (simp add: demo_search demo_results_simps is_empty_def)
  show ?thesis
    using a b execute_failure_keeps_citations [OF a] execute_failure_keeps_citations [OF b]
    by (simp add: used_tool_simps)
qed

text \<open>
  C1, as the code has it. After an \<^verbatim>\<open>execute\<close> that formats (the search tool with no
  error and a non-empty result, the outline tool with a course found), the citation
  state is the pair of lists the formatting built: one label and one link per formatted
  block of that call (for the outline the single title and link), whatever the lists
  held before; it is replaced, not extended. After an \<^verbatim>\<open>execute\<close> that takes the error
  or empty-result branch of the search tool, or the not-found branch of the outline tool
  (no course, or the dict without keys), the citation state is the one before the call;
  it is not reset to length zero.
\<close>

theorem citation_state_after_execute:
  "(\<not> truthy (error (search (store self) q cn ln)) \<and> \<not> is_empty (search (store self) q cn ln) \<longrightarrow>
      last_sources (snd (CourseSearchTool_execute self q cn ln))
        = fst (snd (format_loop (store self) (documents (search (store self) q cn ln))
                                 (metadata (search (store self) q cn ln)) [] [] []))
    \<and> last_source_links (snd (CourseSearchTool_execute self q cn ln))
        = Some (snd (snd (format_loop (store self) (documents (search (store self) q cn ln))
                                       (metadata (search (store self) q cn ln)) [] [] [])))
    \<and> length (last_sources (snd (CourseSearchTool_execute self q cn ln)))
        = length (fst (format_loop (store self) (documents (search (store self) q cn ln))
                                   (metadata (search (store self) q cn ln)) [] [] []))
    \<and> length (snd (snd (format_loop (store self) (documents (search (store self) q cn ln))
                                      (metadata (search (store self) q cn ln)) [] [] [])))
        = length (fst (format_loop (store self) (documents (search (store self) q cn ln))
                                   (metadata (search (store self) q cn ln)) [] [] []))
    \<and> last_sources (snd (CourseSearchTool_execute (self\<lparr>last_sources := a, last_source_links := b\<rparr>) q cn ln))
        = last_sources (snd (CourseSearchTool_execute self q cn ln))
    \<and> last_source_links (snd (CourseSearchTool_execute (self\<lparr>last_sources := a, last_source_links := b\<rparr>) q cn ln))
        = last_source_links (snd (CourseSearchTool_execute self q cn ln)))
   \<and> (truthy (error (search (store self) q cn ln)) \<or> is_empty (search (store self) q cn ln) \<longrightarrow>
      last_sources (snd (CourseSearchTool_execute self q cn ln)) = last_sources self
    \<and> last_source_links (snd (CourseSearchTool_execute self q cn ln)) = last_source_links self)
   \<and> (get_course_by_title (store oself) t = Some d \<and> \<not> no_keys d \<longrightarrow>
      last_sources (snd (CourseOutlineTool_execute oself t))
        = [case ci_title d of None \<Rightarrow> ''Unknown Course'' | Some x \<Rightarrow> x]
    \<and> last_source_links (snd (CourseOutlineTool_execute oself t))
        = Some [Some (case ci_link d of None \<Rightarrow> ''No link available'' | Some k \<Rightarrow> k)]
    \<and> length (last_sources (snd (CourseOutlineTool_execute oself t))) = 1
    \<and> last_sources (snd (CourseOutlineTool_execute (oself\<lparr>last_sources := a, last_source_links := b\<rparr>) t))
        = last_sources (snd (CourseOutlineTool_execute oself t))
    \<and> last_source_links (snd (CourseOutlineTool_execute (oself\<lparr>last_sources := a, last_source_links := b\<rparr>) t))
        = last_source_links (snd (CourseOutlineTool_execute oself t)))
   \<and> (get_course_by_title (store oself) t = None
        \<or> (\<exists>e. get_course_by_title (store oself) t = Some e \<and> no_keys e) \<longrightarrow>
      last_sources (snd (CourseOutlineTool_execute oself t)) = last_sources oself
    \<and> last_source_links (snd (CourseOutlineTool_execute oself t)) = last_source_links oself)"
proof (intro conjI impI)
  assume ok: "\<not> truthy (error (search (store self) q cn ln)) \<and> \<not> is_empty (search (store self) q cn ln)"
  have s: "CourseSearchTool_execute self q cn ln =
             CourseSearchTool_format_results self (search (store self) q cn ln)"
    using ok by (simp add: execute_formats)
  show "last_sources (snd (CourseSearchTool_execute self q cn ln))
        = fst (snd (format_loop (store self) (documents (search (store self) q cn ln))
                                 (metadata (search (store self) q cn ln)) [] [] []))"
    by (simp add: s format_results_state)
  show "last_source_links (snd (CourseSearchTool_execute self q cn ln))
        = Some (snd (snd (format_loop (store self) (documents (search (store self) q cn ln))
                                       (metadata (search (store self) q cn ln)) [] [] [])))"
    by (simp add: s format_results_state)
  show "length (last_sources (snd (CourseSearchTool_execute self q cn ln)))
        = length (fst (format_loop (store self) (documents (search (store self) q cn ln))
                                   (metadata (search (store self) q cn ln)) [] [] []))"
    by (simp add: s format_results_state format_loop_map)
  show "length (snd (snd (format_loop (store self) (documents (search (store self) q cn ln))
                                      (metadata (search (store self) q cn ln)) [] [] [])))
        = length (fst (format_loop (store self) (documents (search (store self) q cn ln))
                                   (metadata (search (store self) q cn ln)) [] [] []))"
    by (simp add: format_loop_map)
  show "last_sources (snd (CourseSearchTool_execute (self\<lparr>last_sources := a, last_source_links := b\<rparr>) q cn ln))
        = last_sources (snd (CourseSearchTool_execute self q cn ln))"
    using ok by (simp add: execute_ignores_prior)
  show "last_source_links (snd (CourseSearchTool_execute (self\<lparr>last_sources := a, last_source_links := b\<rparr>) q cn ln))
        = last_source_links (snd (CourseSearchTool_execute self q cn ln))"
    using ok by (simp add: execute_ignores_prior)
next
  assume ko: "truthy (error (search (store self) q cn ln)) \<or> is_empty (search (store self) q cn ln)"
  have k: "snd (CourseSearchTool_execute self q cn ln) = self"
    using ko by (rule execute_keeps_self)
  show "last_sources (snd (CourseSearchTool_execute self q cn ln)) = last_sources self"
    by (simp add: k)
  show "last_source_links (snd (CourseSearchTool_execute self q cn ln)) = last_source_links self"
    by (simp add: k)
next
  assume fd: "get_course_by_title (store oself) t = Some d \<and> \<not> no_keys d"
  have f1: "get_course_by_title (store oself) t = Some d" and f2: "\<not> no_keys d"
    using fd by simp_all
  have o1: "snd (CourseOutlineTool_execute oself t) =
           oself\<lparr>last_sources := [case ci_title d of None \<Rightarrow> ''Unknown Course'' | Some x \<Rightarrow> x],
                last_source_links := Some [Some (case ci_link d of None \<Rightarrow> ''No link available'' | Some k \<Rightarrow> k)]\<rparr>"
    using f1 f2 by (rule outline_found)
  have o2: "snd (CourseOutlineTool_execute (oself\<lparr>last_sources := a, last_source_links := b\<rparr>) t)
           = snd (CourseOutlineTool_execute oself t)"
    using f1 f2 by (rule outline_ignores_prior)
  show "last_sources (snd (CourseOutlineTool_execute oself t))
        = [case ci_title d of None \<Rightarrow> ''Unknown Course'' | Some x \<Rightarrow> x]"
    by (simp add: o1)
  show "last_source_links (snd (CourseOutlineTool_execute oself t))
        = Some [Some (case ci_link d of None \<Rightarrow> ''No link available'' | Some k \<Rightarrow> k)]"
    by (simp add: o1)
  show "length (last_sources (snd (CourseOutlineTool_execute oself t))) = 1"
    by (simp add: o1)
  show "last_sources (snd (CourseOutlineTool_execute (oself\<lparr>last_sources := a, last_source_links := b\<rparr>) t))
        = last_sources (snd (CourseOutlineTool_execute oself t))"
    by (simp only: o2)
  show "last_source_links (snd (CourseOutlineTool_execute (oself\<lparr>last_sources := a, last_source_links := b\<rparr>) t))
        = last_source_links (snd (CourseOutlineTool_execute oself t))"
    by (simp only: o2)
next
  assume ab: "get_course_by_title (store oself) t = None
        \<or> (\<exists>e. get_course_by_title (store oself) t = Some e \<and> no_keys e)"
  have k: "snd (CourseOutlineTool_execute oself t) = oself"
    using ab by (rule outline_absent)
  show "last_sources (snd (CourseOutlineTool_execute oself t)) = last_sources oself"
    by (simp add: k)
  show "last_source_links (snd (CourseOutlineTool_execute oself t)) = last_source_links oself"
    by (simp add: k)
qed

theorem citation_state_after_execute_witness:
  "\<not> truthy (error (search (store used_tool) ''py'' None None))
   \<and> \<not> is_empty (search (store used_tool) ''py'' None None)
   \<and> (truthy (error (search (store used_tool) ''bad'' None None))
        \<or> is_empty (search (store used_tool) ''bad'' None None))
   \<and> get_course_by_title (store used_outline) ''Py'' = Some demo_course
   \<and> \<not> no_keys demo_course
   \<and> get_course_by_title (store used_outline) ''Zz'' = None
   \<and> get_course_by_title (store bare_outline) ''Py'' = Some empty_course
   \<and> no_keys empty_course
   \<and> length (last_sources (snd (CourseSearchTool_execute used_tool ''py'' None None))) = 3
   \<and> last_sources (snd (CourseSearchTool_execute (used_tool\<lparr>last_sources := [''x'', ''y'', ''z'', ''w''],
                                                             last_source_links := None\<rparr>) ''py'' None None))
       = last_sources (snd (CourseSearchTool_execute used_tool ''py'' None None))
   \<and> last_sources (snd (CourseSearchTool_execute used_tool ''bad'' None None)) = last_sources used_tool
   \<and> last_sources (snd (CourseOutlineTool_execute used_outline ''Py'')) = [''Py'']
   \<and> last_source_links (snd (CourseOutlineTool_execute used_outline ''Py'')) = Some [Some ''http://py'']
   \<and> last_sources (snd (CourseOutlineTool_execute used_outline ''Zz'')) = [''Py'']
   \<and> last_source_links (snd (CourseOutlineTool_execute used_outline ''Zz'')) = Some [Some ''http://py'']
   \<and> last_sources (snd (CourseOutlineTool_execute bare_outline ''Py'')) = [''Py'']
   \<and> last_source_links (snd (CourseOutlineTool_execute bare_outline ''Py'')) = Some [Some ''http://py'']"
proof -
  have a: "\<not> truthy (error (search (store used_tool) ''py'' None None))"
    by (simp add: demo_search demo_results_simps truthy_def)
  have b: "\<not> is_empty (search (store used_tool) ''py'' None None)"
    by (simp add: demo_search demo_results_simps is_empty_def)
  have c: "truthy (error (search (store used_tool) ''bad'' None None))
        \<or> is_empty (search (store used_tool) ''bad'' None None)"
    by (simp add: demo_search demo_results_simps truthy_def)
  have d: "get_course_by_title (store used_outline) ''Py'' = Some demo_course"
    by (simp add: used_outline_simps demo_store_simps)
  have e: "\<not> no_keys demo_course"
    by (simp add: no_keys_def demo_course_def)
  have f: "get_course_by_title (store used_outline) ''Zz'' = None"
    by (simp add: used_outline_simps demo_store_simps)
  have g: "get_course_by_title (store bare_outline) ''Py'' = Some empty_course"
    by (simp add: bare_outline_simps)
  have h: "no_keys empty_course"
    by (simp add: bare_outline_simps)
  have len: "length (fst (format_loop (store used_tool) (documents (search (store used_tool) ''py'' None None))
                            (metadata (search (store used_tool) ''py'' None None)) [] [] [])) = 3"
    by (simp add: demo_search demo_results_simps format_loop_map)
  have gh: "get_course_by_title (store bare_outline) ''Py'' = None
            \<or> (\<exists>e. get_course_by_title (store bare_outline) ''Py'' = Some e \<and> no_keys e)"
    using g h by blast
  have t: "ci_title demo_course = Some ''Py''" "ci_link demo_course = Some ''http://py''"
    by (simp_all add: demo_course_def)
  note formats = citation_state_after_execute [where a = "[''x'', ''y'', ''z'', ''w'']" and b = None,
      THEN conjunct1, THEN mp, OF conjI [OF a b]]
  note keeps = citation_state_after_execute [THEN conjunct2, THEN conjunct1, THEN mp, OF c]
  note found = citation_state_after_execute [THEN conjunct2, THEN conjunct2, THEN conjunct1, THEN mp, OF conjI [OF d e]]
  note absent = citation_state_after_execute [THEN conjunct2, THEN conjunct2, THEN conjunct2, THEN mp, OF disjI1 [OF f]]
  note nokeys = citation_state_after_execute [THEN conjunct2, THEN conjunct2, THEN conjunct2, THEN mp, OF gh]
  have r1: "length (last_sources (snd (CourseSearchTool_execute used_tool ''py'' None None))) = 3"
    using formats [THEN conjunct2, THEN conjunct2, THEN conjunct1] len by (simp only:)
  have r2: "last_sources (snd (CourseSearchTool_execute (used_tool\<lparr>last_sources := [''x'', ''y'', ''z'', ''w''],
                                                             last_source_links := None\<rparr>) ''py'' None None))
       = last_sources (snd (CourseSearchTool_execute used_tool ''py'' None None))"
    using formats by blast
  have r3: "last_sources (snd (CourseSearchTool_execute used_tool ''bad'' None None)) = last_sources used_tool"
    using keeps by blast
  have r4: "last_sources (snd (CourseOutlineTool_execute used_outline ''Py'')) = [''Py'']"
           "last_source_links (snd (CourseOutlineTool_execute used_outline ''Py'')) = Some [Some ''http://py'']"
    using found by (simp_all add: t)
  have r5: "last_sources (snd (CourseOutlineTool_execute used_outline ''Zz'')) = [''Py'']"
           "last_source_links (snd (CourseOutlineTool_execute used_outline ''Zz'')) = Some [Some ''http://py'']"
    using absent by (simp_all add: used_outline_simps)
  have r6: "last_sources (snd (CourseOutlineTool_execute bare_outline ''Py'')) = [''Py'']"
           "last_source_links (snd (CourseOutlineTool_execute bare_outline ''Py'')) = Some [Some ''http://py'']"
    using nokeys by (simp_all add: bare_outline_simps)
  show ?thesis
    using a b c d e f g h r1 r2 r3 r4 r5 r6 by blast
qed

text \<open>
  A search that formatted three blocks is followed by a search with an empty result:
  the second call returns the empty-result message, and the citation state still has the
  three entries of the first call.
\<close>

theorem citation_state_stale_counterexample:
  "fst (CourseSearchTool_execute used_tool ''none'' None None) = ''No relevant content found.''
   \<and> length (last_sources (snd (CourseSearchTool_execute used_tool ''none'' None None))) = 3
   \<and> last_source_links (snd (CourseSearchTool_execute used_tool ''none'' None None))
       = Some [Some ''http://py'', Some ''http://py/1'', None]"
  by (simp add: CourseSearchTool_execute_def Let_def used_tool_simps demo_store_simps
        demo_results_simps truthy_def truthy_int_def is_empty_def no_content_message_def)

section \<open>The tool manager\<close>

lemma first_sources_skip:
  "\<forall>t \<in> set pre. last_sources (tool_obj_of t) = [] \<Longrightarrow>
     first_sources (pre @ ts) = first_sources ts"
  by (induction pre) simp_all

lemma first_sources_none:
  "\<forall>t \<in> set ts. last_sources (tool_obj_of t) = [] \<Longrightarrow> first_sources ts = []"
  by (induction ts) simp_all

lemma map_of_dict_set: "map_of (dict_set kvs k v) k = Some v"
  by (induction kvs k v rule: dict_set.induct) simp_all

lemma register_two:
  "register_all new_tool_manager [CourseSearchTool used_tool, CourseOutlineTool used_outline]
     = Inr two_tools"
  "register_all new_tool_manager
     [CourseSearchTool (new_tool demo_store), CourseOutlineTool (new_tool demo_store)]
     = Inr unused_tools"
  "register_all new_tool_manager
     [CourseSearchTool (new_tool demo_store), CourseOutlineTool used_outline]
     = Inr late_tools"
  by (simp_all add: register_tool_def new_tool_manager_def two_tools_def unused_tools_def
        late_tools_def)

lemma first_source_links_skip:
  "\<forall>t \<in> set pre. last_source_links (tool_obj_of t) = None
                    \<or> last_source_links (tool_obj_of t) = Some [] \<Longrightarrow>
     first_source_links (pre @ ts) = first_source_links ts"
  by (induction pre) auto

lemma first_source_links_none:
  "\<forall>t \<in> set ts. last_source_links (tool_obj_of t) = None
                   \<or> last_source_links (tool_obj_of t) = Some [] \<Longrightarrow>
     first_source_links ts = []"
  by (induction ts) auto


lemma get_last_sources_at:
  assumes "tools tm = pre @ (k, t) # post"
      and "\<forall>(k', t') \<in> set pre. last_sources (tool_obj_of t') = []"
      and "last_sources (tool_obj_of t) \<noteq> []"
  shows "get_last_sources tm = last_sources (tool_obj_of t)"
proof -
  have "\<forall>x \<in> set (map snd pre). last_sources (tool_obj_of x) = []"
    using assms(2) by auto
  then have "first_sources (map snd pre @ t # map snd post) = first_sources (t # map snd post)"
    by (rule first_sources_skip)
  then show ?thesis
    using assms(1) assms(3) by (simp add: get_last_sources_def)
qed

lemma get_last_source_links_at:
  assumes "tools tm = pre @ (k, t) # post"
      and "\<forall>(k', t') \<in> set pre. last_source_links (tool_obj_of t') = None
                                  \<or> last_source_links (tool_obj_of t') = Some []"
      and "last_source_links (tool_obj_of t) = Some links" "links \<noteq> []"
  shows "get_last_source_links tm = links"
proof -
  have "\<forall>x \<in> set (map snd pre). last_source_links (tool_obj_of x) = None
                                 \<or> last_source_links (tool_obj_of x) = Some []"
    using assms(2) by auto
  then have "first_source_links (map snd pre @ t # map snd post)
               = first_source_links (t # map snd post)"
    by (rule first_source_links_skip)
  then show ?thesis
    using assms(1) assms(3) assms(4) by (simp add: get_last_source_links_def)
qed

text \<open>
  C6. \<^verbatim>\<open>get_last_sources\<close> goes through the registered tools in the order of the dict
  and returns the \<^verbatim>\<open>last_sources\<close> of the first tool whose list is not empty, whatever
  the tools after it hold; when every tool's list is empty, also when no tool is
  registered, it returns the empty list. \<^verbatim>\<open>get_last_source_links\<close> does the same for
  the links: the first tool that has the attribute \<^verbatim>\<open>last_source_links\<close> with a
  non-empty list, and the empty list when there is none. When the first tool with labels
  is also the first tool with links, the two results pair up as that tool's citations.
\<close>

theorem get_last_sources_first_match:
  "(tools tm = pre @ (k, t) # post
      \<and> (\<forall>(k', t') \<in> set pre. last_sources (tool_obj_of t') = [])
      \<and> last_sources (tool_obj_of t) \<noteq> [] \<longrightarrow>
    get_last_sources tm = last_sources (tool_obj_of t))
   \<and> ((\<forall>(k', t') \<in> set (tools tm). last_sources (tool_obj_of t') = []) \<longrightarrow>
    get_last_sources tm = [])
   \<and> (tools tm = pre @ (k, t) # post
      \<and> (\<forall>(k', t') \<in> set pre. last_source_links (tool_obj_of t') = None
                                \<or> last_source_links (tool_obj_of t') = Some [])
      \<and> last_source_links (tool_obj_of t) = Some links \<and> links \<noteq> [] \<longrightarrow>
    get_last_source_links tm = links)
   \<and> ((\<forall>(k', t') \<in> set (tools tm). last_source_links (tool_obj_of t') = None
                                     \<or> last_source_links (tool_obj_of t') = Some []) \<longrightarrow>
    get_last_source_links tm = [])
   \<and> (tools tm = pre @ (k, t) # post
      \<and> (\<forall>(k', t') \<in> set pre. last_sources (tool_obj_of t') = []
                                \<and> (last_source_links (tool_obj_of t') = None
                                    \<or> last_source_links (tool_obj_of t') = Some []))
      \<and> last_sources (tool_obj_of t) \<noteq> []
      \<and> last_source_links (tool_obj_of t) = Some links \<and> links \<noteq> [] \<longrightarrow>
    zip (get_last_sources tm) (get_last_source_links tm)
      = zip (last_sources (tool_obj_of t)) links)"
proof (intro conjI impI)
  assume "tools tm = pre @ (k, t) # post
      \<and> (\<forall>(k', t') \<in> set pre. last_sources (tool_obj_of t') = [])
      \<and> last_sources (tool_obj_of t) \<noteq> []"
  then show "get_last_sources tm = last_sources (tool_obj_of t)"
    using get_last_sources_at [of tm pre k t post] by blast
next
  assume "\<forall>(k', t') \<in> set (tools tm). last_sources (tool_obj_of t') = []"
  then have "\<forall>x \<in> set (map snd (tools tm)). last_sources (tool_obj_of x) = []"
    by auto
  then show "get_last_sources tm = []"
    unfolding get_last_sources_def by (rule first_sources_none)
next
  assume "tools tm = pre @ (k, t) # post
      \<and> (\<forall>(k', t') \<in> set pre. last_source_links (tool_obj_of t') = None
                                \<or> last_source_links (tool_obj_of t') = Some [])
      \<and> last_source_links (tool_obj_of t) = Some links \<and> links \<noteq> []"
  then show "get_last_source_links tm = links"
    using get_last_source_links_at [of tm pre k t post links] by blast
next
  assume "\<forall>(k', t') \<in> set (tools tm). last_source_links (tool_obj_of t') = None
                                     \<or> last_source_links (tool_obj_of t') = Some []"
  then have "\<forall>x \<in> set (map snd (tools tm)). last_source_links (tool_obj_of x) = None
                                 \<or> last_source_links (tool_obj_of x) = Some []"
    by auto
  then show "get_last_source_links tm = []"
    unfolding get_last_source_links_def by (rule first_source_links_none)
next
  assume h: "tools tm = pre @ (k, t) # post
      \<and> (\<forall>(k', t') \<in> set pre. last_sources (tool_obj_of t') = []
                                \<and> (last_source_links (tool_obj_of t') = None
                                    \<or> last_source_links (tool_obj_of t') = Some []))
      \<and> last_sources (tool_obj_of t) \<noteq> []
      \<and> last_source_links (tool_obj_of t) = Some links \<and> links \<noteq> []"
  have p1: "\<forall>(k', t') \<in> set pre. last_sources (tool_obj_of t') = []"
    using h by auto
  have p2: "\<forall>(k', t') \<in> set pre. last_source_links (tool_obj_of t') = None
                                  \<or> last_source_links (tool_obj_of t') = Some []"
    using h by auto
  have "get_last_sources tm = last_sources (tool_obj_of t)"
    using h p1 get_last_sources_at [of tm pre k t post] by blast
  moreover have "get_last_source_links tm = links"
    using h p2 get_last_source_links_at [of tm pre k t post links] by blast
  ultimately show "zip (get_last_sources tm) (get_last_source_links tm)
      = zip (last_sources (tool_obj_of t)) links"
    by simp
qed

text \<open>
  Two tools registered in the order search, outline. When both hold citations the
  results are the search tool's labels and links; when only the outline tool holds
  citations the results are its label and link; when neither does, and on the manager
  without tools, both results are empty.
\<close>

theorem get_last_sources_first_match_witness:
  "register_all new_tool_manager [CourseSearchTool used_tool, CourseOutlineTool used_outline]
     = Inr two_tools
   \<and> register_all new_tool_manager
        [CourseSearchTool (new_tool demo_store), CourseOutlineTool used_outline] = Inr late_tools
   \<and> last_sources used_tool \<noteq> [] \<and> last_sources used_outline \<noteq> []
   \<and> last_sources (new_tool demo_store) = []
   \<and> last_source_links (new_tool demo_store) = None
   \<and> get_last_sources two_tools = [''Py - Lesson 0'', ''Py - Lesson 1'', ''Ext'']
   \<and> get_last_source_links two_tools = [Some ''http://py'', Some ''http://py/1'', None]
   \<and> get_last_sources late_tools = [''Py'']
   \<and> get_last_source_links late_tools = [Some ''http://py'']
   \<and> get_last_sources unused_tools = []
   \<and> get_last_source_links unused_tools = []
   \<and> get_last_sources new_tool_manager = []
   \<and> get_last_source_links new_tool_manager = []"
proof -
  have two: "tools two_tools = [] @ (''search_course_content'', CourseSearchTool used_tool)
                           # [(''get_course_outline'', CourseOutlineTool used_outline)]"
    by (simp add: two_tools_def)
  have late: "tools late_tools = [(''search_course_content'', CourseSearchTool (new_tool demo_store))]
                           @ (''get_course_outline'', CourseOutlineTool used_outline) # []"
    by (simp add: late_tools_def)
  have e1: "\<forall>(k', t') \<in> set ([] :: (string \<times> tool) list). last_sources (tool_obj_of t') = []"
    by simp
  have e2: "\<forall>(k', t') \<in> set ([] :: (string \<times> tool) list).
              last_source_links (tool_obj_of t') = None \<or> last_source_links (tool_obj_of t') = Some []"
    by simp
  have n1: "\<forall>(k', t') \<in> set [(''search_course_content'', CourseSearchTool (new_tool demo_store))].
              last_sources (tool_obj_of t') = []"
    by (simp add: new_tool_def)
  have n2: "\<forall>(k', t') \<in> set [(''search_course_content'', CourseSearchTool (new_tool demo_store))].
              last_source_links (tool_obj_of t') = None \<or> last_source_links (tool_obj_of t') = Some []"
    by (simp add: new_tool_def)
  have u1: "\<forall>(k', t') \<in> set (tools unused_tools). last_sources (tool_obj_of t') = []"
    by (simp add: unused_tools_def new_tool_def)
  have u2: "\<forall>(k', t') \<in> set (tools unused_tools).
              last_source_links (tool_obj_of t') = None \<or> last_source_links (tool_obj_of t') = Some []"
    by (simp add: unused_tools_def new_tool_def)
  have z1: "\<forall>(k', t') \<in> set (tools new_tool_manager). last_sources (tool_obj_of t') = []"
    by (simp add: new_tool_manager_def)
  have z2: "\<forall>(k', t') \<in> set (tools new_tool_manager).
              last_source_links (tool_obj_of t') = None \<or> last_source_links (tool_obj_of t') = Some []"
    by (simp add: new_tool_manager_def)
  have s1: "last_sources (tool_obj_of (CourseSearchTool used_tool)) \<noteq> []"
    by (simp add: used_tool_simps)
  have s2: "last_source_links (tool_obj_of (CourseSearchTool used_tool))
              = Some [Some ''http://py'', Some ''http://py/1'', None]
            \<and> [Some ''http://py'', Some ''http://py/1'', None] \<noteq> []"
    by (simp add: used_tool_simps)
  have o1: "last_sources (tool_obj_of (CourseOutlineTool used_outline)) \<noteq> []"
    by (simp add: used_outline_simps)
  have o2: "last_source_links (tool_obj_of (CourseOutlineTool used_outline)) = Some [Some ''http://py'']
            \<and> [Some ''http://py''] \<noteq> []"
    by (simp add: used_outline_simps)
  have r1: "get_last_sources two_tools = last_sources (tool_obj_of (CourseSearchTool used_tool))"
    using get_last_sources_first_match [THEN conjunct1, THEN mp, OF conjI [OF two conjI [OF e1 s1]]] .
  have r2: "get_last_source_links two_tools = [Some ''http://py'', Some ''http://py/1'', None]"
    using get_last_sources_first_match [THEN conjunct2, THEN conjunct2, THEN conjunct1, THEN mp,
               OF conjI [OF two conjI [OF e2 s2]]] .
  have r3: "get_last_sources late_tools = last_sources (tool_obj_of (CourseOutlineTool used_outline))"
    using get_last_sources_first_match [THEN conjunct1, THEN mp, OF conjI [OF late conjI [OF n1 o1]]] .
  have r4: "get_last_source_links late_tools = [Some ''http://py'']"
    using get_last_sources_first_match [THEN conjunct2, THEN conjunct2, THEN conjunct1, THEN mp,
               OF conjI [OF late conjI [OF n2 o2]]] .
  have r5: "get_last_sources unused_tools = []"
    using get_last_sources_first_match [THEN conjunct2, THEN conjunct1, THEN mp, OF u1] .
  have r6: "get_last_source_links unused_tools = []"
    using get_last_sources_first_match [THEN conjunct2, THEN conjunct2, THEN conjunct2, THEN conjunct1, THEN mp, OF u2] .
  have r7: "get_last_sources new_tool_manager = []"
    using get_last_sources_first_match [THEN conjunct2, THEN conjunct1, THEN mp, OF z1] .
  have r8: "get_last_source_links new_tool_manager = []"
    using get_last_sources_first_match [THEN conjunct2, THEN conjunct2, THEN conjunct2, THEN conjunct1, THEN mp, OF z2] .
  have v1: "get_last_sources two_tools = [''Py - Lesson 0'', ''Py - Lesson 1'', ''Ext'']"
    using r1 by (simp add: used_tool_simps)
  have v3: "get_last_sources late_tools = [''Py'']"
    using r3 by (simp add: used_outline_simps)
  have nt: "last_sources (new_tool demo_store) = []" "last_source_links (new_tool demo_store) = None"
    by (simp_all add: new_tool_def)
  have ne: "last_sources used_tool \<noteq> []" "last_sources used_outline \<noteq> []"
    by (simp_all add: used_tool_simps used_outline_simps)
  show ?thesis
    using register_two(1) register_two(3) ne nt v1 r2 v3 r4 r5 r6 r7 r8 by blast
qed

text \<open>
  C7. For a name that is not a key of the dict, also when the dict is empty,
  \<^verbatim>\<open>execute_tool\<close> returns the string "Tool '{name}' not found" and raises nothing; the
  manager is unchanged. For a registered name it returns what the \<^verbatim>\<open>execute\<close> of that
  tool returns for the same arguments (and raises what it raises), and the dict then
  holds the tool as \<^verbatim>\<open>execute\<close> left it.
\<close>

theorem execute_tool_dispatch:
  "(name \<notin> fst ` set (tools tm) \<longrightarrow>
      execute_tool tm name args
        = Inr (''Tool '' @ [CHR 0x27] @ name @ [CHR 0x27] @ '' not found'', tm))
   \<and> (map_of (tools tm) name = Some t \<longrightarrow>
      map_sum id fst (execute_tool tm name args) = map_sum id fst (tool_execute t args)
      \<and> (\<forall>res t2. tool_execute t args = Inr (res, t2) \<longrightarrow>
            (\<exists>tm'. execute_tool tm name args = Inr (res, tm')
                   \<and> map_of (tools tm') name = Some t2)))"
proof (intro conjI impI)
  assume "name \<notin> fst ` set (tools tm)"
  then have "map_of (tools tm) name = None"
    by (simp add: map_of_eq_None_iff)
  then show "execute_tool tm name args
           = Inr (''Tool '' @ [CHR 0x27] @ name @ [CHR 0x27] @ '' not found'', tm)"
    by (simp add: execute_tool_def)
next
  assume "map_of (tools tm) name = Some t"
  then show "map_sum id fst (execute_tool tm name args) = map_sum id fst (tool_execute t args)"
    by (simp add: execute_tool_def split: sum.splits prod.splits)
next
  assume "map_of (tools tm) name = Some t"
  then show "\<forall>res t2. tool_execute t args = Inr (res, t2) \<longrightarrow>
             (\<exists>tm'. execute_tool tm name args = Inr (res, tm')
                    \<and> map_of (tools tm') name = Some t2)"
    by (simp add: execute_tool_def map_of_dict_set)
qed

theorem execute_tool_dispatch_witness:
  "''nope'' \<notin> fst ` set (tools new_tool_manager)
   \<and> ''nope'' \<notin> fst ` set (tools two_tools)
   \<and> map_of (tools two_tools) ''search_course_content'' = Some (CourseSearchTool used_tool)
   \<and> tool_execute (CourseSearchTool used_tool) (SearchArgs ''bad'' None None)
        = Inr (''Search error'', CourseSearchTool used_tool)
   \<and> execute_tool new_tool_manager ''nope'' (SearchArgs ''py'' None None)
        = Inr (''Tool '' @ [CHR 0x27] @ ''nope'' @ [CHR 0x27] @ '' not found'', new_tool_manager)
   \<and> execute_tool two_tools ''nope'' (SearchArgs ''py'' None None)
        = Inr (''Tool '' @ [CHR 0x27] @ ''nope'' @ [CHR 0x27] @ '' not found'', two_tools)
   \<and> map_sum id fst (execute_tool two_tools ''search_course_content'' (SearchArgs ''bad'' None None))
        = Inr ''Search error''
   \<and> (\<exists>tm'. execute_tool two_tools ''search_course_content'' (SearchArgs ''bad'' None None)
                = Inr (''Search error'', tm')
            \<and> map_of (tools tm') ''search_course_content'' = Some (CourseSearchTool used_tool))
   \<and> map_sum id fst (execute_tool two_tools ''search_course_content'' (OutlineArgs ''Py''))
        = Inl TypeError"
proof -
  have z: "''nope'' \<notin> fst ` set (tools new_tool_manager)"
    by (simp add: new_tool_manager_def)
  have a: "''nope'' \<notin> fst ` set (tools two_tools)"
    by (simp add: two_tools_def)
  have b: "map_of (tools two_tools) ''search_course_content'' = Some (CourseSearchTool used_tool)"
    by (simp add: two_tools_def)
  have c: "tool_execute (CourseSearchTool used_tool) (SearchArgs ''bad'' None None)
             = Inr (''Search error'', CourseSearchTool used_tool)"
    by (simp add: CourseSearchTool_execute_def Let_def demo_search demo_results_simps truthy_def)
  have d: "tool_execute (CourseSearchTool used_tool) (OutlineArgs ''Py'') = Inl TypeError"
    by simp
  have r0: "execute_tool new_tool_manager ''nope'' (SearchArgs ''py'' None None)
        = Inr (''Tool '' @ [CHR 0x27] @ ''nope'' @ [CHR 0x27] @ '' not found'', new_tool_manager)"
    using execute_tool_dispatch [THEN conjunct1, THEN mp, OF z] .
  have r1: "execute_tool two_tools ''nope'' (SearchArgs ''py'' None None)
        = Inr (''Tool '' @ [CHR 0x27] @ ''nope'' @ [CHR 0x27] @ '' not found'', two_tools)"
    using execute_tool_dispatch [THEN conjunct1, THEN mp, OF a] .
  note known = execute_tool_dispatch [THEN conjunct2, THEN mp, OF b]
  have r2: "map_sum id fst (execute_tool two_tools ''search_course_content'' (SearchArgs ''bad'' None None))
        = Inr ''Search error''"
    using known [of "SearchArgs ''bad'' None None", THEN conjunct1] by (simp only: c map_sum.simps fst_conv id_apply)
  have r3: "\<exists>tm'. execute_tool two_tools ''search_course_content'' (SearchArgs ''bad'' None None)
                = Inr (''Search error'', tm')
            \<and> map_of (tools tm') ''search_course_content'' = Some (CourseSearchTool used_tool)"
    using known [of "SearchArgs ''bad'' None None", THEN conjunct2] c by blast
  have r4: "map_sum id fst (execute_tool two_tools ''search_course_content'' (OutlineArgs ''Py''))
        = Inl TypeError"
    using known [of "OutlineArgs ''Py''", THEN conjunct1] by (simp only: d map_sum.simps id_apply)
  show ?thesis
    using z a b c r0 r1 r2 r3 r4 by blast
qed

end
